theory Spec2Isabelle
  imports Complex_Main "HOL-Library.Multiset" "HOL-Library.Char_ord" "HOL-Library.List_Lexorder"
    "HOL-Library.Product_Lexorder"
begin

section \<open>Python and pandas primitives used by \<^verbatim>\<open>main.py\<close>\<close>

text \<open>
  The program is one module, \<^verbatim>\<open>src/backend/app/main.py\<close>: three module globals
  (\<^verbatim>\<open>df\<close>, \<^verbatim>\<open>all_property_types\<close>, \<^verbatim>\<open>location_tree\<close>), the startup hook
  \<^verbatim>\<open>load_data\<close> and the two handlers \<^verbatim>\<open>get_form_options\<close> and \<^verbatim>\<open>search_rentals\<close>.

  Conventions of the embedding.
  \<^item> A pandas float cell is a \<open>rat option\<close>: \<open>None\<close> is NaN, \<open>Some q\<close> the number.
    Arithmetic is exact; the rounding of IEEE doubles (in the mean of two central
    values and in the mean of the coordinates) is not modelled.
  \<^item> A text cell is a \<open>string option\<close>: \<open>None\<close> is the NaN that \<^verbatim>\<open>read_csv\<close> puts in
    an empty cell. Strings are byte lists, compared lexicographically by byte, which
    is Python's order on code points for UTF-8 text.
  \<^item> Exceptions are values of \<open>py_error\<close>; a function that can raise returns
    \<open>py_error + 'a\<close>.
  \<^item> Data frames live in a store (a list of frames, addressed by position), because
    the program keeps several frames derived from \<^verbatim>\<open>df\<close> and updates one of them in
    place.
\<close>

datatype py_error = KeyError | ValueError

text \<open>\<^verbatim>\<open>int(x)\<close> on a float: truncation toward zero; NaN raises ValueError.\<close>

definition py_int :: "rat \<Rightarrow> int" where
  "py_int x = (if 0 \<le> x then \<lfloor>x\<rfloor> else \<lceil>x\<rceil>)"

definition int_of_float :: "rat option \<Rightarrow> py_error + int" where
  "int_of_float x = (case x of None \<Rightarrow> Inl ValueError | Some q \<Rightarrow> Inr (py_int q))"

text \<open>\<^verbatim>\<open>str(n)\<close> for an integer, as the f-strings of the program print it.\<close>

definition digit :: "nat \<Rightarrow> char" where
  "digit n = ''0123456789'' ! n"

fun str_nat :: "nat \<Rightarrow> string" where
  "str_nat n = (if n < 10 then [digit n] else str_nat (n div 10) @ [digit (n mod 10)])"

declare str_nat.simps [simp del]

definition str_int :: "int \<Rightarrow> string" where
  "str_int i = (if i < 0 then CHR ''-'' # str_nat (nat (- i)) else str_nat (nat i))"

text \<open>
  \<^verbatim>\<open>str.strip()\<close>: leading and trailing whitespace removed. The whitespace of the model
  is the ASCII part of Python's (tab, LF, VT, FF, CR, the separators 28 to 31, space).
\<close>

definition isspace :: "char \<Rightarrow> bool" where
  "isspace c = (let n = (of_char c :: nat) in (9 \<le> n \<and> n \<le> 13) \<or> (28 \<le> n \<and> n \<le> 32))"

definition strip :: "string \<Rightarrow> string" where
  "strip s = rev (dropWhile isspace (rev (dropWhile isspace s)))"

text \<open>\<^verbatim>\<open>range(0, stop, step)\<close> for a positive step.\<close>

definition py_range0 :: "int \<Rightarrow> int \<Rightarrow> int list" where
  "py_range0 stop step = map (\<lambda>k. int k * step) [0 ..< nat ((stop + step - 1) div step)]"

text \<open>The non-missing values of a column (\<^verbatim>\<open>dropna\<close> on a Series, \<^verbatim>\<open>skipna\<close> in a reduction).\<close>

definition somes :: "'a option list \<Rightarrow> 'a list" where
  "somes xs = List.map_filter id xs"

text \<open>
  \<^verbatim>\<open>Series.median()\<close>: NaN is skipped; the values are sorted; the middle one, or the mean
  of the two central ones; NaN when nothing is left.
\<close>

definition median_sorted :: "rat list \<Rightarrow> rat" where
  "median_sorted s = (let n = length s in
     if odd n then s ! (n div 2) else (s ! (n div 2 - 1) + s ! (n div 2)) / 2)"

definition pd_median :: "rat option list \<Rightarrow> rat option" where
  "pd_median col = (let vs = somes col in if vs = [] then None else Some (median_sorted (sort vs)))"

text \<open>\<^verbatim>\<open>Series.min()\<close>, \<^verbatim>\<open>Series.max()\<close>, \<^verbatim>\<open>Series.mean()\<close>: NaN skipped, NaN on nothing.\<close>

definition pd_min :: "rat option list \<Rightarrow> rat option" where
  "pd_min col = (case somes col of [] \<Rightarrow> None | v # vs \<Rightarrow> Some (fold min vs v))"

definition pd_max :: "rat option list \<Rightarrow> rat option" where
  "pd_max col = (case somes col of [] \<Rightarrow> None | v # vs \<Rightarrow> Some (fold max vs v))"

definition pd_mean :: "rat option list \<Rightarrow> rat option" where
  "pd_mean col = (let vs = somes col in if vs = [] then None else Some (sum_list vs / of_nat (length vs)))"

text \<open>
  \<^verbatim>\<open>Series.mode()\<close>: the most frequent non-missing values in ascending order; the
  program reads element 0, the smallest of them, after testing \<^verbatim>\<open>.empty\<close>.
\<close>

definition pd_mode :: "('a::linorder) option list \<Rightarrow> 'a list" where
  "pd_mode col = (let vs = somes col; ks = sort (remdups vs);
       most = fold max (map (\<lambda>k. count_list vs k) ks) 0
     in filter (\<lambda>k. count_list vs k = most) ks)"


text \<open>\<^verbatim>\<open>Series.unique()\<close>: the distinct values in order of first appearance.\<close>

definition unique :: "'a list \<Rightarrow> 'a list" where
  "unique xs = rev (remdups (rev xs))"

text \<open>
  \<^verbatim>\<open>DataFrame.sample(n)\<close>: \<open>n\<close> rows drawn without replacement; a larger sample than
  the population raises ValueError. The random source is an explicit argument, a list
  of numbers read one per draw (0 once it is exhausted): the draw removes the row at
  that position, modulo the rows left.
\<close>

fun draw :: "nat list \<Rightarrow> nat \<Rightarrow> 'a list \<Rightarrow> 'a list" where
  "draw rng 0 xs = []"
| "draw rng (Suc n) xs =
     (if xs = [] then []
      else let i = (case rng of [] \<Rightarrow> 0 | r # _ \<Rightarrow> r) mod length xs
           in xs ! i # draw (tl rng) n (take i xs @ drop (Suc i) xs))"

definition sample :: "nat list \<Rightarrow> nat \<Rightarrow> 'a list \<Rightarrow> py_error + 'a list" where
  "sample rng n xs = (if length xs < n then Inl ValueError else Inr (draw rng n xs))"

section \<open>Data model\<close>

text \<open>
  A cell of the \<^verbatim>\<open>Rent Price\<close> column as \<^verbatim>\<open>read_csv\<close> delivers it: a number, a text
  (when the column did not parse as numeric) or NaN.
\<close>

datatype cell = NaN | Str string | Num rat

text \<open>A parsed date: year, month, day, and the time of day (which the program drops).\<close>

type_synonym timestamp = "int \<times> nat \<times> nat \<times> nat"

text \<open>
  What the model takes from pandas as parameters, because it is not code of this
  repository and differs between pandas versions or is too large to restate:
  \<^item> \<open>astype_str_nan\<close>: what \<^verbatim>\<open>astype(str)\<close> makes of a NaN cell: the text \<^verbatim>\<open>'nan'\<close> in
    pandas 1 and 2 (\<open>Some ''nan''\<close>), still missing with the string dtype of pandas 3
    (\<open>None\<close>);
  \<^item> \<open>to_numeric_text\<close>: the number \<^verbatim>\<open>pd.to_numeric(errors='coerce')\<close> reads from a text
    cell, \<open>None\<close> (NaN) when it reads none;
  \<^item> \<open>to_datetime\<close>: \<^verbatim>\<open>pd.to_datetime(column, errors='coerce')\<close>, on the whole column
    (pandas infers the format from the column); \<open>None\<close> is NaT.
\<close>

record pandas =
  astype_str_nan :: "string option"
  to_numeric_text :: "string \<Rightarrow> rat option"
  to_datetime :: "string option list \<Rightarrow> timestamp option list"

text \<open>A row of the CSV file as read (line 30), and a row of a data frame after line 34.\<close>

record csv_row =
  csv_State :: "string option"
  csv_District :: "string option"
  csv_Standard_Type :: "string option"
  csv_Rent_Price :: cell
  csv_Furnishing_Type :: "string option"
  csv_Property_Size :: "rat option"
  csv_No_of_Bedroom :: "rat option"
  csv_No_of_Bathroom :: "rat option"
  csv_Extract_Date :: "string option"
  csv_Latitude :: "rat option"
  csv_Longitude :: "rat option"

record csv_file =
  csv_columns :: "string list"
  csv_rows :: "csv_row list"

text \<open>
  \<open>date\<close> and \<open>month_year\<close> are the two columns \<^verbatim>\<open>search_rentals\<close> adds to its copy
  \<^verbatim>\<open>trend_df\<close>; they are \<open>None\<close> in every other frame.
\<close>

record row =
  State :: "string option"
  District :: "string option"
  Standard_Type :: "string option"
  Rent_Price :: "rat option"
  Furnishing_Type :: "string option"
  Property_Size :: "rat option"
  No_of_Bedroom :: "rat option"
  No_of_Bathroom :: "rat option"
  Extract_Date :: "string option"
  Latitude :: "rat option"
  Longitude :: "rat option"
  date :: "timestamp option"
  month_year :: "string option"

record frame =
  columns :: "string list"
  rows :: "row list"

text \<open>
  The module globals and the store of data frames. \<open>df\<close> is \<open>None\<close> before
  \<^verbatim>\<open>load_data\<close> has run, and the address of the snapshot's frame afterwards.
\<close>

record globals =
  df :: "nat option"
  all_property_types :: "string list"
  location_tree :: "string \<rightharpoonup> (string \<rightharpoonup> string list)"
  heap :: "frame list"

section \<open>\<^verbatim>\<open>load_data\<close> (lines 24 to 58)\<close>

definition astype_str :: "pandas \<Rightarrow> string option \<Rightarrow> string option" where
  "astype_str lib x = (case x of None \<Rightarrow> astype_str_nan lib | Some s \<Rightarrow> Some s)"

definition to_numeric :: "pandas \<Rightarrow> cell \<Rightarrow> rat option" where
  "to_numeric lib c = (case c of NaN \<Rightarrow> None | Num q \<Rightarrow> Some q | Str s \<Rightarrow> to_numeric_text lib s)"

text \<open>Lines 34 to 39, on one row.\<close>

definition clean_row :: "pandas \<Rightarrow> csv_row \<Rightarrow> row" where
  "clean_row lib c =
     \<lparr>State = map_option strip (astype_str lib (csv_State c)),
      District = map_option strip (astype_str lib (csv_District c)),
      Standard_Type = map_option strip (astype_str lib (csv_Standard_Type c)),
      Rent_Price = to_numeric lib (csv_Rent_Price c),
      Furnishing_Type = csv_Furnishing_Type c,
      Property_Size = csv_Property_Size c,
      No_of_Bedroom = csv_No_of_Bedroom c,
      No_of_Bathroom = csv_No_of_Bathroom c,
      Extract_Date = csv_Extract_Date c,
      Latitude = csv_Latitude c,
      Longitude = csv_Longitude c,
      date = None,
      month_year = None\<rparr>"

text \<open>Line 43: \<^verbatim>\<open>dropna(subset=['Rent Price', 'State', 'District', 'Standard Type'])\<close>.\<close>

definition required_present :: "row \<Rightarrow> bool" where
  "required_present r =
     (Rent_Price r \<noteq> None \<and> State r \<noteq> None \<and> District r \<noteq> None \<and> Standard_Type r \<noteq> None)"

text \<open>
  Lines 50 to 56. \<^verbatim>\<open>groupby(['State', 'District'])\<close> leaves out a row with NaN in a key
  and yields the groups in ascending key order; each group carries the distinct
  \<^verbatim>\<open>Standard Type\<close> values of its rows. The column holds no NaN after line 43
  (lemma \<open>load_data_rows_present\<close>), so it is read as a list of strings.
\<close>

definition group_key :: "row \<Rightarrow> (string \<times> string) option" where
  "group_key r = (case State r of None \<Rightarrow> None
     | Some s \<Rightarrow> (case District r of None \<Rightarrow> None | Some d \<Rightarrow> Some (s, d)))"

definition group_keys :: "row list \<Rightarrow> (string \<times> string) list" where
  "group_keys rs = sort (remdups (somes (map group_key rs)))"

definition group_types :: "row list \<Rightarrow> string \<times> string \<Rightarrow> string list" where
  "group_types rs k = unique (somes (map Standard_Type (filter (\<lambda>r. group_key r = Some k) rs)))"

definition tree_step ::
  "row list \<Rightarrow> string \<times> string \<Rightarrow> (string \<rightharpoonup> (string \<rightharpoonup> string list)) \<Rightarrow> (string \<rightharpoonup> (string \<rightharpoonup> string list))" where
  "tree_step rs k tree =
     (let tree1 = (if fst k \<notin> dom tree then tree(fst k \<mapsto> Map.empty) else tree)
      in case tree1 (fst k) of None \<Rightarrow> tree1
         | Some districts \<Rightarrow> tree1(fst k \<mapsto> districts(snd k \<mapsto> sort (group_types rs k))))"

definition build_tree :: "row list \<Rightarrow> (string \<rightharpoonup> (string \<rightharpoonup> string list))" where
  "build_tree rs = fold (tree_step rs) (group_keys rs) Map.empty"

text \<open>
  \<^verbatim>\<open>load_data\<close>. Reading a column the file does not have raises KeyError, and the
  startup fails. Otherwise the cleaned frame is stored and the three globals are set.
\<close>

definition load_data :: "pandas \<Rightarrow> csv_file \<Rightarrow> globals \<Rightarrow> py_error + globals" where
  "load_data lib file g =
     (if \<not> set [''Rent Price'', ''State'', ''District'', ''Standard Type''] \<subseteq> set (csv_columns file)
      then Inl KeyError
      else let kept = filter required_present (map (clean_row lib) (csv_rows file))
           in Inr \<lparr>df = Some (length (heap g)),
                   all_property_types = sort (unique (somes (map Standard_Type kept))),
                   location_tree = build_tree kept,
                   heap = heap g @ [\<lparr>columns = csv_columns file, rows = kept\<rparr>]\<rparr>)"

text \<open>\<^verbatim>\<open>get_form_options\<close> (lines 61 to 65) reads two globals.\<close>

definition get_form_options :: "globals \<Rightarrow> string list \<times> (string \<rightharpoonup> (string \<rightharpoonup> string list))" where
  "get_form_options g = (all_property_types g, location_tree g)"

section \<open>\<^verbatim>\<open>search_rentals\<close> (lines 67 to 169)\<close>

subsection \<open>The response\<close>

record comparison_entry =
  cmp_type :: string
  cmp_medianRent :: int
  cmp_diff :: int

record trend_entry =
  trend_name :: string
  trend_price :: int

record dist_entry =
  dist_range :: string
  dist_count :: nat

text \<open>A point is \<^verbatim>\<open>[Latitude, Longitude, Rent Price]\<close>, three floats.\<close>

type_synonym point = "rat option \<times> rat option \<times> rat option"

record result =
  location :: string
  medianRent :: int
  suitableIncome :: int
  coordinates :: "rat option \<times> rat option"
  points :: "point list"
  mapMin :: int
  mapMax :: int
  commonFeatures :: "string list"
  count_listings :: nat
  comparison :: "comparison_entry list"
  trends :: "trend_entry list"
  distribution :: "dist_entry list"

text \<open>
  \<open>NotLoaded\<close> is \<^verbatim>\<open>{"found": False, "error": "Data not loaded"}\<close>, \<open>NotFound\<close> is
  \<^verbatim>\<open>{"found": False}\<close>, \<open>Found\<close> the dictionary of lines 155 to 169.
\<close>

datatype response = NotLoaded | NotFound | Found result

subsection \<open>Frames in the store\<close>

text \<open>
  \<^verbatim>\<open>frame[mask]\<close> builds a new frame of the rows the mask selects; the frame it reads
  is left as it is. The new frame gets the next free address.
\<close>

definition getitem_mask :: "(row \<Rightarrow> bool) \<Rightarrow> nat \<Rightarrow> globals \<Rightarrow> nat \<times> globals" where
  "getitem_mask p a g =
     (length (heap g), g\<lparr>heap := heap g @ [(heap g ! a)\<lparr>rows := filter p (rows (heap g ! a))\<rparr>]\<rparr>)"

definition exact_mask :: "string \<Rightarrow> string \<Rightarrow> string \<Rightarrow> row \<Rightarrow> bool" where
  "exact_mask state district houseType r =
     (State r = Some state \<and> District r = Some district \<and> Standard_Type r = Some houseType)"

definition district_mask :: "string \<Rightarrow> string \<Rightarrow> row \<Rightarrow> bool" where
  "district_mask state district r = (State r = Some state \<and> District r = Some district)"

subsection \<open>Statistics and features (lines 84 to 99)\<close>

definition median_rent_of :: "frame \<Rightarrow> py_error + int" where
  "median_rent_of all_results = int_of_float (pd_median (map Rent_Price (rows all_results)))"

text \<open>
  The bedroom and bathroom columns are numeric here, so \<^verbatim>\<open>int(float(x))\<close> is \<^verbatim>\<open>int(x)\<close>
  and \<^verbatim>\<open>str\<close> of a furnishing text is the text.
\<close>

definition common_features :: "frame \<Rightarrow> string list" where
  "common_features all_results =
     (if ''Furnishing Type'' \<in> set (columns all_results)
      then (case pd_mode (map Furnishing_Type (rows all_results)) of [] \<Rightarrow> [] | m # _ \<Rightarrow> [m])
      else []) @
     (if ''Property Size'' \<in> set (columns all_results)
      then (case pd_median (map Property_Size (rows all_results)) of None \<Rightarrow> []
            | Some med_size \<Rightarrow> [str_int (py_int med_size) @ '' sqft''])
      else []) @
     (if ''No of Bedroom'' \<in> set (columns all_results)
      then (case pd_mode (map No_of_Bedroom (rows all_results)) of [] \<Rightarrow> []
            | m # _ \<Rightarrow> [str_int (py_int m) @ '' Beds''])
      else []) @
     (if ''No of Bathroom'' \<in> set (columns all_results)
      then (case pd_mode (map No_of_Bathroom (rows all_results)) of [] \<Rightarrow> []
            | m # _ \<Rightarrow> [str_int (py_int m) @ '' Baths''])
      else [])"

subsection \<open>Comparison (lines 102 to 115)\<close>

text \<open>
  \<^verbatim>\<open>groupby(key)['Rent Price'].median().reset_index()\<close>: one row per key value, NaN keys
  left out, in ascending key order, with the median of the group's prices.
\<close>

definition groupby_median :: "(row \<Rightarrow> string option) \<Rightarrow> row list \<Rightarrow> (string \<times> rat option) list" where
  "groupby_median key rs =
     map (\<lambda>k. (k, pd_median (map Rent_Price (filter (\<lambda>r. key r = Some k) rs))))
       (sort (remdups (somes (map key rs))))"

text \<open>The loop of lines 106 to 114: \<^verbatim>\<open>int\<close> is applied to every group, before the test.\<close>

fun comparison_loop :: "string \<Rightarrow> int \<Rightarrow> (string \<times> rat option) list \<Rightarrow> py_error + comparison_entry list" where
  "comparison_loop houseType median_rent [] = Inr []"
| "comparison_loop houseType median_rent ((t_type, m) # rest) =
     (case int_of_float m of
        Inl e \<Rightarrow> Inl e
      | Inr t_price \<Rightarrow>
          (case comparison_loop houseType median_rent rest of
             Inl e \<Rightarrow> Inl e
           | Inr entries \<Rightarrow>
               Inr (if t_type \<noteq> houseType
                    then \<lparr>cmp_type = t_type, cmp_medianRent = t_price, cmp_diff = t_price - median_rent\<rparr> # entries
                    else entries)))"

text \<open>Line 115: \<^verbatim>\<open>list.sort\<close> is stable, as \<open>sort_key\<close> is.\<close>

definition comparison_of :: "frame \<Rightarrow> string \<Rightarrow> int \<Rightarrow> py_error + comparison_entry list" where
  "comparison_of district_df houseType median_rent =
     (case comparison_loop houseType median_rent (groupby_median Standard_Type (rows district_df)) of
        Inl e \<Rightarrow> Inl e
      | Inr entries \<Rightarrow> Inr (sort_key cmp_medianRent entries))"

subsection \<open>Trends (lines 118 to 126)\<close>

definition zfill :: "nat \<Rightarrow> string \<Rightarrow> string" where
  "zfill n s = replicate (n - length s) CHR ''0'' @ s"

text \<open>\<^verbatim>\<open>dt.to_period('D').astype(str)\<close>: the day, printed as \<^verbatim>\<open>YYYY-MM-DD\<close>.\<close>

definition period_D_str :: "timestamp \<Rightarrow> string" where
  "period_D_str t = (case t of (y, m, d, _) \<Rightarrow>
     zfill 4 (str_int y) @ ''-'' @ zfill 2 (str_nat m) @ ''-'' @ zfill 2 (str_nat d))"

definition add_column :: "string \<Rightarrow> string list \<Rightarrow> string list" where
  "add_column c cols = (if c \<in> set cols then cols else cols @ [c])"

fun trend_loop :: "(string \<times> rat option) list \<Rightarrow> py_error + trend_entry list" where
  "trend_loop [] = Inr []"
| "trend_loop ((label, m) # rest) =
     (case int_of_float m of
        Inl e \<Rightarrow> Inl e
      | Inr p \<Rightarrow>
          (case trend_loop rest of
             Inl e \<Rightarrow> Inl e
           | Inr entries \<Rightarrow> Inr (\<lparr>trend_name = label, trend_price = p\<rparr> # entries)))"

text \<open>
  \<^verbatim>\<open>trend_df = all_results.copy()\<close> is a new frame; the three statements after it
  (a new column, \<^verbatim>\<open>dropna(inplace=True)\<close>, another new column) update that frame where
  it is stored.
\<close>

definition trend_step :: "pandas \<Rightarrow> nat \<Rightarrow> globals \<Rightarrow> (py_error + trend_entry list) \<times> globals" where
  "trend_step lib all_results g =
     (if ''Extract Date'' \<in> set (columns (heap g ! all_results)) then
        let trend_df = length (heap g);
            g1 = g\<lparr>heap := heap g @ [heap g ! all_results]\<rparr>;
            f1 = heap g1 ! trend_df;
            dates = to_datetime lib (map Extract_Date (rows f1));
            g2 = g1\<lparr>heap := (heap g1)[trend_df := f1\<lparr>columns := add_column ''date'' (columns f1),
                    rows := map (\<lambda>(r, d). r\<lparr>date := d\<rparr>) (zip (rows f1) dates)\<rparr>]\<rparr>;
            f2 = heap g2 ! trend_df;
            g3 = g2\<lparr>heap := (heap g2)[trend_df := f2\<lparr>rows := filter (\<lambda>r. date r \<noteq> None) (rows f2)\<rparr>]\<rparr>;
            f3 = heap g3 ! trend_df;
            g4 = g3\<lparr>heap := (heap g3)[trend_df := f3\<lparr>columns := add_column ''month_year'' (columns f3),
                    rows := map (\<lambda>r. r\<lparr>month_year := map_option period_D_str (date r)\<rparr>) (rows f3)\<rparr>]\<rparr>;
            monthly_stats = sort_key fst (groupby_median month_year (rows (heap g4 ! trend_df)))
        in (trend_loop monthly_stats, g4)
      else (Inr [], g))"

subsection \<open>Distribution (lines 128 to 132)\<close>

text \<open>
  \<^verbatim>\<open>pd.cut(prices, bins, labels, right=False).value_counts().sort_index()\<close>: ValueError
  when the labels repeat or are not one fewer than the edges; otherwise one count per
  label, in the order of the labels: the values \<open>x\<close> with \<open>lo \<le> x < hi\<close> for the two
  edges of the label. A value outside every interval is NaN after the cut and is in
  no count.
\<close>

definition cut_value_counts :: "int list \<Rightarrow> string list \<Rightarrow> rat list \<Rightarrow> py_error + (string \<times> nat) list" where
  "cut_value_counts bins labels xs =
     (if \<not> distinct labels \<or> int (length labels) \<noteq> int (length bins) - 1 then Inl ValueError
      else Inr (map (\<lambda>(l, lo, hi). (l, length (filter (\<lambda>x. of_int lo \<le> x \<and> x < of_int hi) xs)))
                  (zip labels (zip bins (tl bins)))))"

definition distribution_of :: "frame \<Rightarrow> py_error + dist_entry list" where
  "distribution_of all_results =
     (let prices = somes (map Rent_Price (rows all_results)) in
      case int_of_float (pd_max (map Some prices)) of
        Inl e \<Rightarrow> Inl e
      | Inr hi \<Rightarrow>
          let bins = py_range0 (hi + 500) 500;
              labels = map (\<lambda>i. str_int i @ ''-'' @ str_int (i + 500)) (butlast bins)
          in case cut_value_counts bins labels prices of
               Inl e \<Rightarrow> Inl e
             | Inr price_dist \<Rightarrow>
                 Inr (map (\<lambda>(k, v). \<lparr>dist_range = k, dist_count = v\<rparr>) (filter (\<lambda>(k, v). v > 0) price_dist)))"

subsection \<open>Map data (lines 135 to 153)\<close>

record map_data =
  center :: "rat option \<times> rat option"
  map_min :: int
  map_max :: int
  map_points :: "point list"

definition has_coordinates :: "row \<Rightarrow> bool" where
  "has_coordinates r = (Latitude r \<noteq> None \<and> Longitude r \<noteq> None)"

definition point_of :: "row \<Rightarrow> point" where
  "point_of r = (Latitude r, Longitude r, Rent_Price r)"

text \<open>
  \<^verbatim>\<open>all_results.dropna(subset=...)\<close> without \<^verbatim>\<open>inplace\<close> is a new frame, and so is the
  sample; the variable \<^verbatim>\<open>map_results\<close> is rebound to it.
\<close>

definition map_step :: "nat list \<Rightarrow> nat \<Rightarrow> globals \<Rightarrow> (py_error + map_data) \<times> globals" where
  "map_step rng all_results g =
     (if \<not> set [''Latitude'', ''Longitude''] \<subseteq> set (columns (heap g ! all_results)) then (Inl KeyError, g)
      else
        let (map_results, g1) = getitem_mask has_coordinates all_results g;
            f = heap g1 ! map_results
        in if rows f = []
           then (Inr \<lparr>center = (Some (31319 / 10000), Some (1016841 / 10000)),
                      map_min = 0, map_max = 0, map_points = []\<rparr>, g1)
           else
             let center_lat = pd_mean (map Latitude (rows f));
                 center_lng = pd_mean (map Longitude (rows f))
             in case int_of_float (pd_min (map Rent_Price (rows f))) of
                  Inl e \<Rightarrow> (Inl e, g1)
                | Inr lo \<Rightarrow>
                   (case int_of_float (pd_max (map Rent_Price (rows f))) of
                      Inl e \<Rightarrow> (Inl e, g1)
                    | Inr hi \<Rightarrow>
                       if length (rows f) > 2000
                       then (case sample rng 2000 (rows f) of
                               Inl e \<Rightarrow> (Inl e, g1)
                             | Inr drawn \<Rightarrow>
                                 let g2 = g1\<lparr>heap := heap g1 @ [f\<lparr>rows := drawn\<rparr>]\<rparr>
                                 in (Inr \<lparr>center = (center_lat, center_lng), map_min = lo, map_max = hi,
                                         map_points = map point_of (rows (heap g2 ! length (heap g1)))\<rparr>, g2))
                       else (Inr \<lparr>center = (center_lat, center_lng), map_min = lo, map_max = hi,
                                  map_points = map point_of (rows f)\<rparr>, g1)))"

subsection \<open>The handler\<close>

definition search_found ::
  "pandas \<Rightarrow> nat list \<Rightarrow> string \<Rightarrow> string \<Rightarrow> string \<Rightarrow> nat \<Rightarrow> nat \<Rightarrow> globals \<Rightarrow> (py_error + response) \<times> globals" where
  "search_found lib rng state district houseType d all_results g1 =
     (if ''Rent Price'' \<notin> set (columns (heap g1 ! all_results)) then (Inl KeyError, g1)
      else case median_rent_of (heap g1 ! all_results) of
        Inl e \<Rightarrow> (Inl e, g1)
      | Inr median_rent \<Rightarrow>
          let features = common_features (heap g1 ! all_results);
              (district_df, g2) = getitem_mask (district_mask state district) d g1
          in case comparison_of (heap g2 ! district_df) houseType median_rent of
               Inl e \<Rightarrow> (Inl e, g2)
             | Inr comparison_list \<Rightarrow>
                (case trend_step lib all_results g2 of
                   (Inl e, g3) \<Rightarrow> (Inl e, g3)
                 | (Inr trend_data, g3) \<Rightarrow>
                    (case distribution_of (heap g3 ! all_results) of
                       Inl e \<Rightarrow> (Inl e, g3)
                     | Inr distribution_data \<Rightarrow>
                        (case map_step rng all_results g3 of
                           (Inl e, g4) \<Rightarrow> (Inl e, g4)
                         | (Inr m, g4) \<Rightarrow>
                            (Inr (Found
                               \<lparr>location = district @ '', '' @ state,
                                medianRent = median_rent,
                                suitableIncome = median_rent * 3,
                                coordinates = center m,
                                points = map_points m,
                                mapMin = map_min m,
                                mapMax = map_max m,
                                commonFeatures = features,
                                count_listings = length (rows (heap g4 ! all_results)),
                                comparison = comparison_list,
                                trends = trend_data,
                                distribution = distribution_data\<rparr>), g4)))))"

text \<open>
  The handler takes the random source of line 150 as an argument and returns the
  response (or the exception) together with the globals and the store it leaves.
\<close>

definition search_rentals ::
  "pandas \<Rightarrow> nat list \<Rightarrow> string \<Rightarrow> string \<Rightarrow> string \<Rightarrow> globals \<Rightarrow> (py_error + response) \<times> globals" where
  "search_rentals lib rng state district houseType g =
     (case df g of
        None \<Rightarrow> (Inr NotLoaded, g)
      | Some d \<Rightarrow>
          if \<not> set [''State'', ''District'', ''Standard Type''] \<subseteq> set (columns (heap g ! d))
          then (Inl KeyError, g)
          else
            let (all_results, g1) = getitem_mask (exact_mask state district houseType) d g
            in if rows (heap g1 ! all_results) = [] then (Inr NotFound, g1)
               else search_found lib rng state district houseType d all_results g1)"

section \<open>Vocabulary of the properties\<close>

text \<open>
  \<open>extends g g'\<close>: the globals are the same and the store has only grown at its end, so
  every frame that was stored is still stored, unchanged, at its address.
\<close>

definition extends :: "globals \<Rightarrow> globals \<Rightarrow> bool" where
  "extends g g' = (\<exists>ext. g' = g\<lparr>heap := heap g @ ext\<rparr>)"

text \<open>
  The Dataset Snapshot: \<open>is_snapshot g f\<close> says that \<^verbatim>\<open>df\<close> is the stored frame \<open>f\<close>,
  that \<open>f\<close> has the four columns \<^verbatim>\<open>load_data\<close> reads and that none of its rows has NaN
  in them (what \<^verbatim>\<open>load_data\<close> establishes, lemma \<open>load_data_is_snapshot\<close>).
\<close>

definition is_snapshot :: "globals \<Rightarrow> frame \<Rightarrow> bool" where
  "is_snapshot g f =
     (case df g of None \<Rightarrow> False
      | Some a \<Rightarrow> a < length (heap g) \<and> heap g ! a = f \<and>
          set [''Rent Price'', ''State'', ''District'', ''Standard Type''] \<subseteq> set (columns f) \<and>
          list_all required_present (rows f))"

text \<open>The two frames a query derives from the snapshot (lines 78 and 103), as values.\<close>

definition all_results_of :: "string \<Rightarrow> string \<Rightarrow> string \<Rightarrow> frame \<Rightarrow> frame" where
  "all_results_of state district houseType f =
     f\<lparr>rows := filter (exact_mask state district houseType) (rows f)\<rparr>"

definition district_df_of :: "string \<Rightarrow> string \<Rightarrow> frame \<Rightarrow> frame" where
  "district_df_of state district f = f\<lparr>rows := filter (district_mask state district) (rows f)\<rparr>"

text \<open>\<^verbatim>\<open>location_tree[S][D]\<close>, \<open>None\<close> where Python raises KeyError.\<close>

definition tree_lookup :: "(string \<rightharpoonup> (string \<rightharpoonup> string list)) \<Rightarrow> string \<Rightarrow> string \<Rightarrow> string list option" where
  "tree_lookup tree S D = (case tree S of None \<Rightarrow> None | Some districts \<Rightarrow> districts D)"

subsection \<open>Concrete data for the closed examples\<close>

text \<open>
  Two instances of the pandas parameters, differing in \<^verbatim>\<open>astype(str)\<close> on NaN. Their
  \<open>to_numeric_text\<close> reads unsigned decimal integers and their \<open>to_datetime\<close> parses
  nothing; the examples below have numeric prices and no date column.
\<close>

definition is_digit :: "char \<Rightarrow> bool" where
  "is_digit c = (48 \<le> (of_char c :: nat) \<and> (of_char c :: nat) \<le> 57)"

definition number_of_text :: "string \<Rightarrow> rat option" where
  "number_of_text s =
     (if s \<noteq> [] \<and> list_all is_digit s
      then Some (of_nat (foldl (\<lambda>acc c. 10 * acc + (of_char c - 48)) 0 s))
      else None)"

definition pandas2 :: pandas where
  "pandas2 = \<lparr>astype_str_nan = Some ''nan'', to_numeric_text = number_of_text,
              to_datetime = map (\<lambda>x. None)\<rparr>"

definition pandas3 :: pandas where
  "pandas3 = \<lparr>astype_str_nan = None, to_numeric_text = number_of_text,
              to_datetime = map (\<lambda>x. None)\<rparr>"

text \<open>The globals as the module sets them (lines 19 to 21), with an empty store.\<close>

definition startup :: globals where
  "startup = \<lparr>df = None, all_property_types = [], location_tree = Map.empty, heap = []\<rparr>"

definition listing :: "string \<Rightarrow> string \<Rightarrow> string \<Rightarrow> cell \<Rightarrow> csv_row" where
  "listing s d t p =
     \<lparr>csv_State = Some s, csv_District = Some d, csv_Standard_Type = Some t, csv_Rent_Price = p,
      csv_Furnishing_Type = None, csv_Property_Size = None, csv_No_of_Bedroom = None,
      csv_No_of_Bathroom = None, csv_Extract_Date = None, csv_Latitude = None,
      csv_Longitude = None\<rparr>"

definition located :: "rat \<Rightarrow> rat \<Rightarrow> csv_row \<Rightarrow> csv_row" where
  "located lat lng c = c\<lparr>csv_Latitude := Some lat, csv_Longitude := Some lng\<rparr>"

definition csv_of :: "csv_row list \<Rightarrow> csv_file" where
  "csv_of rs = \<lparr>csv_columns = [''State'', ''District'', ''Standard Type'', ''Rent Price'',
       ''Latitude'', ''Longitude''], csv_rows = rs\<rparr>"

text \<open>The globals after a start on a file (the start does not fail on these files).\<close>

definition loaded :: "pandas \<Rightarrow> csv_row list \<Rightarrow> globals" where
  "loaded lib rs = (case load_data lib (csv_of rs) startup of Inl e \<Rightarrow> startup | Inr g \<Rightarrow> g)"

text \<open>The scenario of the specification: two condos and a studio in Ampang.\<close>

definition scenario :: "csv_row list" where
  "scenario =
     [located 3 101 (listing ''KL'' ''Ampang'' ''Condo'' (Num 1500)),
      located 4 102 (listing ''KL'' ''Ampang'' ''Condo'' (Num 1701)),
      listing ''KL'' ''Ampang'' ''Studio'' (Num 1200)]"


text \<open>Two condos whose highest rent is a multiple of 500.\<close>

definition round_rents :: "csv_row list" where
  "round_rents =
     [listing ''KL'' ''Ampang'' ''Condo'' (Num 1000),
      listing ''KL'' ''Ampang'' ''Condo'' (Num 1500)]"

text \<open>
  A listing whose state is two spaces, one whose rent is the text \<^verbatim>\<open>n/a\<close>, and a sound
  one.
\<close>

definition blank_state :: "csv_row list" where
  "blank_state =
     [listing ''  '' ''Ampang'' ''Condo'' (Num 1500),
      listing ''KL'' ''Ampang'' ''Condo'' (Str ''n/a''),
      listing '' KL'' ''Ampang '' ''Condo'' (Str ''1700'')]"

section \<open>The store only grows\<close>

lemma extends_refl: "extends g g"
  unfolding extends_def by (rule exI [of _ "[]"]) simp

lemma extends_trans: "extends g g1 \<Longrightarrow> extends g1 g2 \<Longrightarrow> extends g g2"
  unfolding extends_def by auto

lemma extends_append: "extends g (g\<lparr>heap := heap g @ ext\<rparr>)"
  unfolding extends_def by blast

lemma extends_nth: "extends g g' \<Longrightarrow> a < length (heap g) \<Longrightarrow> heap g' ! a = heap g ! a"
  unfolding extends_def by (auto simp: nth_append)

lemma extends_length: "extends g g' \<Longrightarrow> length (heap g) \<le> length (heap g')"
  unfolding extends_def by auto

lemma getitem_mask_extends: "extends g (snd (getitem_mask p a g))"
  by (simp add: getitem_mask_def extends_append)

lemma trend_step_extends: "extends g (snd (trend_step lib a g))"
proof (cases "''Extract Date'' \<in> set (columns (heap g ! a))")
  case True
  then show ?thesis
    unfolding extends_def trend_step_def Let_def by (auto simp: list_update_append)
next
  case False
  then show ?thesis by (simp add: trend_step_def extends_refl)
qed

lemma map_step_extends: "extends g (snd (map_step rng a g))"
proof -
  let ?g1 = "g\<lparr>heap := heap g @ [(heap g ! a)\<lparr>rows := filter has_coordinates (rows (heap g ! a))\<rparr>]\<rparr>"
  have 1: "extends g ?g1" by (rule extends_append)
  have 2: "extends g (?g1\<lparr>heap := heap ?g1 @ ext\<rparr>)" for ext
    by (rule extends_trans [OF 1 extends_append])
  show ?thesis
    unfolding map_step_def Let_def getitem_mask_def
    using 1 2 by (auto split: prod.splits sum.splits simp: extends_refl simp del: append_assoc)
qed

lemma search_found_extends: "extends g1 (snd (search_found lib rng s d t a n g1))"
proof -
  let ?g2 = "snd (getitem_mask (district_mask s d) a g1)"
  let ?g3 = "snd (trend_step lib n ?g2)"
  let ?g4 = "snd (map_step rng n ?g3)"
  have 2: "extends g1 ?g2" by (rule getitem_mask_extends)
  have 3: "extends g1 ?g3" by (rule extends_trans [OF 2 trend_step_extends])
  have 4: "extends g1 ?g4" by (rule extends_trans [OF 3 map_step_extends])
  show ?thesis
    unfolding search_found_def Let_def
    using 2 3 4
    by (auto split: sum.splits simp: extends_refl case_prod_beta)
qed

lemma search_rentals_extends: "extends g (snd (search_rentals lib rng s d t g))"
proof -
  have 1: "extends g (snd (getitem_mask (exact_mask s d t) a g))" for a by (rule getitem_mask_extends)
  have 2: "extends g (snd (search_found lib rng s d t a n (snd (getitem_mask (exact_mask s d t) a g))))" for a n
    by (rule extends_trans [OF 1 search_found_extends])
  show ?thesis
    unfolding search_rentals_def Let_def
    using 1 2
    by (auto split: sum.splits option.splits simp: extends_refl case_prod_beta)
qed

section \<open>The handler in normal form\<close>

lemma getitem_mask_fst: "fst (getitem_mask p a g) = length (heap g)"
  by (simp add: getitem_mask_def)

lemma getitem_mask_heap: "heap (snd (getitem_mask p a g)) = heap g @ [(heap g ! a)\<lparr>rows := filter p (rows (heap g ! a))\<rparr>]"
  by (simp add: getitem_mask_def)

lemma search_rentals_normal_form:
  fixes s d t :: string and lib :: pandas and g :: globals
  assumes a: "df g = Some a" and wf: "a < length (heap g)"
  defines "n \<equiv> length (heap g)"
  defines "AR \<equiv> all_results_of s d t (heap g ! a)"
  defines "DD \<equiv> district_df_of s d (heap g ! a)"
  defines "g2 \<equiv> snd (getitem_mask (district_mask s d) a (snd (getitem_mask (exact_mask s d t) a g)))"
  defines "g3 \<equiv> snd (trend_step lib n g2)"
  shows "fst (search_rentals lib rng s d t g) =
     (if \<not> set [''State'', ''District'', ''Standard Type''] \<subseteq> set (columns (heap g ! a)) then Inl KeyError
      else if rows AR = [] then Inr NotFound
      else if ''Rent Price'' \<notin> set (columns AR) then Inl KeyError
      else case median_rent_of AR of Inl e \<Rightarrow> Inl e
       | Inr median_rent \<Rightarrow>
      (case comparison_of DD t median_rent of Inl e \<Rightarrow> Inl e
       | Inr comparison_list \<Rightarrow>
      (case fst (trend_step lib n g2) of Inl e \<Rightarrow> Inl e
       | Inr trend_data \<Rightarrow>
      (case distribution_of AR of Inl e \<Rightarrow> Inl e
       | Inr distribution_data \<Rightarrow>
      (case fst (map_step rng n g3) of Inl e \<Rightarrow> Inl e
       | Inr m \<Rightarrow>
          Inr (Found \<lparr>location = d @ '', '' @ s, medianRent = median_rent,
                 suitableIncome = median_rent * 3, coordinates = center m,
                 points = map_points m, mapMin = map_min m, mapMax = map_max m,
                 commonFeatures = common_features AR, count_listings = length (rows AR),
                 comparison = comparison_list, trends = trend_data,
                 distribution = distribution_data\<rparr>))))))"
    and "heap g2 ! n = AR" and "heap g3 ! n = AR"
proof -
  let ?g1 = "snd (getitem_mask (exact_mask s d t) a g)"
  have h1: "heap ?g1 ! n = AR"
    by (simp add: getitem_mask_heap n_def AR_def all_results_of_def)
  have l1: "length (heap ?g1) = Suc n" by (simp add: getitem_mask_heap n_def)
  have h1a: "heap ?g1 ! a = heap g ! a" using wf by (simp add: getitem_mask_heap nth_append)
  have e2: "extends ?g1 g2" unfolding g2_def by (rule getitem_mask_extends)
  have h2: "heap g2 ! n = AR" using extends_nth [OF e2, of n] l1 h1 by simp
  have h2d: "heap g2 ! Suc n = DD"
    unfolding g2_def by (simp add: getitem_mask_heap [of _ _ ?g1] l1 h1a DD_def district_df_of_def nth_append)
  have l2: "n < length (heap g2)" using extends_length [OF e2] l1 by simp
  have e3: "extends g2 g3" unfolding g3_def by (rule trend_step_extends)
  have h3: "heap g3 ! n = AR" using extends_nth [OF e3 l2] h2 by simp
  have l3: "n < length (heap g3)" using extends_length [OF e3] l2 by simp
  have h4: "heap (snd (map_step rng n g3)) ! n = AR"
    using extends_nth [OF map_step_extends l3] h3 by simp
  show "heap g2 ! n = AR" by (rule h2)
  show "heap g3 ! n = AR" by (rule h3)
  have cols: "columns AR = columns (heap g ! a)" by (simp add: AR_def all_results_of_def)
  show "fst (search_rentals lib rng s d t g) = 
     (if \<not> set [''State'', ''District'', ''Standard Type''] \<subseteq> set (columns (heap g ! a)) then Inl KeyError
      else if rows AR = [] then Inr NotFound
      else if ''Rent Price'' \<notin> set (columns AR) then Inl KeyError
      else case median_rent_of AR of Inl e \<Rightarrow> Inl e
       | Inr median_rent \<Rightarrow>
      (case comparison_of DD t median_rent of Inl e \<Rightarrow> Inl e
       | Inr comparison_list \<Rightarrow>
      (case fst (trend_step lib n g2) of Inl e \<Rightarrow> Inl e
       | Inr trend_data \<Rightarrow>
      (case distribution_of AR of Inl e \<Rightarrow> Inl e
       | Inr distribution_data \<Rightarrow>
      (case fst (map_step rng n g3) of Inl e \<Rightarrow> Inl e
       | Inr m \<Rightarrow>
          Inr (Found \<lparr>location = d @ '', '' @ s, medianRent = median_rent,
                 suitableIncome = median_rent * 3, coordinates = center m,
                 points = map_points m, mapMin = map_min m, mapMax = map_max m,
                 commonFeatures = common_features AR, count_listings = length (rows AR),
                 comparison = comparison_list, trends = trend_data,
                 distribution = distribution_data\<rparr>))))))"
    unfolding search_rentals_def search_found_def Let_def case_prod_beta
    using a
    apply (simp only: option.case getitem_mask_fst l1 n_def [symmetric] h1 g2_def [symmetric] h2d
       g3_def [symmetric] h3 h4 cols)
    apply (simp split: sum.splits prod.splits add: cols)
    done
qed

section \<open>Columns and medians\<close>

lemma somes_Nil [simp]: "somes [] = []" by (simp add: somes_def)
lemma somes_Cons_None [simp]: "somes (None # xs) = somes xs" by (simp add: somes_def List.map_filter_simps)
lemma somes_Cons_Some [simp]: "somes (Some x # xs) = x # somes xs" by (simp add: somes_def List.map_filter_simps)


lemma somes_map_Some [simp]: "somes (map Some xs) = xs"
  by (induction xs) simp_all









section \<open>The snapshot\<close>

lemma list_all_filter_self: "list_all P (filter P xs)"
  by (induction xs) simp_all

lemma load_data_is_snapshot:
  assumes "load_data lib file g0 = Inr g"
  shows "is_snapshot g \<lparr>columns = csv_columns file,
           rows = filter required_present (map (clean_row lib) (csv_rows file))\<rparr>"
proof -
  have c: "set [''Rent Price'', ''State'', ''District'', ''Standard Type''] \<subseteq> set (csv_columns file)"
    using assms unfolding load_data_def by (cases "set [''Rent Price'', ''State'', ''District'', ''Standard Type''] \<subseteq> set (csv_columns file)") simp_all
  then have g: "g = \<lparr>df = Some (length (heap g0)),
       all_property_types = sort (unique (somes (map Standard_Type (filter required_present (map (clean_row lib) (csv_rows file)))))),
       location_tree = build_tree (filter required_present (map (clean_row lib) (csv_rows file))),
       heap = heap g0 @ [\<lparr>columns = csv_columns file, rows = filter required_present (map (clean_row lib) (csv_rows file))\<rparr>]\<rparr>"
    using assms unfolding load_data_def Let_def by simp
  show ?thesis unfolding is_snapshot_def using c by (simp add: g list_all_filter_self)
qed

lemma is_snapshot_extends: "is_snapshot g f \<Longrightarrow> extends g g' \<Longrightarrow> is_snapshot g' f"
  unfolding is_snapshot_def extends_def by (auto split: option.splits simp: nth_append)

lemma is_snapshot_search:
  "is_snapshot g f \<Longrightarrow> is_snapshot (snd (search_rentals lib rng s d t g)) f"
  by (rule is_snapshot_extends [OF _ search_rentals_extends])

lemma is_snapshotD:
  assumes "is_snapshot g f"
  obtains a where "df g = Some a" "a < length (heap g)" "heap g ! a = f"
    "set [''Rent Price'', ''State'', ''District'', ''Standard Type''] \<subseteq> set (columns f)"
    "list_all required_present (rows f)"
  using assms unfolding is_snapshot_def by (cases "df g") auto


section \<open>Median rent\<close>

lemma loaded_scenario: "load_data pandas2 (csv_of scenario) startup = Inr (loaded pandas2 scenario)"
  by (simp add: loaded_def load_data_def csv_of_def Let_def)




lemma scenario_condo:
  "fst (search_rentals pandas2 [] ''KL'' ''Ampang'' ''Condo'' (loaded pandas2 scenario)) =
     Inr (Found \<lparr>location = ''Ampang, KL'', medianRent = 1600, suitableIncome = 4800,
          coordinates = (Some (7 / 2), Some (203 / 2)),
          points = [(Some 3, Some 101, Some 1500), (Some 4, Some 102, Some 1701)],
          mapMin = 1500, mapMax = 1701, commonFeatures = [], count_listings = 2,
          comparison = [\<lparr>cmp_type = ''Studio'', cmp_medianRent = 1200, cmp_diff = - 400\<rparr>],
          trends = [],
          distribution = [\<lparr>dist_range = ''1500-2000'', dist_count = 2\<rparr>]\<rparr>)"
  by code_simp




section \<open>Map data\<close>

lemma length_draw: "length (draw rng n xs) = min n (length xs)"
proof (induction n arbitrary: rng xs)
  case 0
  show ?case by simp
next
  case (Suc n)
  show ?case
  proof (cases "xs = []")
    case True
    then show ?thesis by simp
  next
    case False
    define i where "i = (case rng of [] \<Rightarrow> 0 | r # _ \<Rightarrow> r) mod length xs"
    define rest where "rest = take i xs @ drop (Suc i) xs"
    have i: "i < length xs" using False by (simp add: i_def)
    then have len: "length rest = length xs - 1" by (simp add: rest_def)
    have "length (draw (tl rng) n rest) = min n (length rest)" by (rule Suc.IH)
    then have ih: "length (draw (tl rng) n rest) = min n (length xs - 1)" by (simp only: len)
    have "draw rng (Suc n) xs = xs ! i # draw (tl rng) n rest"
      using False by (simp add: Let_def i_def rest_def)
    then have e: "length (draw rng (Suc n) xs) = Suc (min n (length xs - 1))"
      by (simp only: ih list.size length_Cons)
    have "Suc (min n (length xs - 1)) = min (Suc n) (length xs)" using i by arith
    with e show ?thesis by (rule trans)
  qed
qed



lemma sample_enough: "n \<le> length xs \<Longrightarrow> sample rng n xs = Inr (draw rng n xs)"
  by (simp add: sample_def)

text \<open>The value of the map step, without the store.\<close>

lemma map_step_fst:
  "fst (map_step rng n g) =
     (if \<not> set [''Latitude'', ''Longitude''] \<subseteq> set (columns (heap g ! n)) then Inl KeyError
      else let mr = filter has_coordinates (rows (heap g ! n)) in
        if mr = []
        then Inr \<lparr>center = (Some (31319 / 10000), Some (1016841 / 10000)),
                  map_min = 0, map_max = 0, map_points = []\<rparr>
        else case int_of_float (pd_min (map Rent_Price mr)) of
               Inl e \<Rightarrow> Inl e
             | Inr lo \<Rightarrow>
                (case int_of_float (pd_max (map Rent_Price mr)) of
                   Inl e \<Rightarrow> Inl e
                 | Inr hi \<Rightarrow>
                     Inr \<lparr>center = (pd_mean (map Latitude mr), pd_mean (map Longitude mr)),
                          map_min = lo, map_max = hi,
                          map_points = map point_of (if length mr > 2000 then draw rng 2000 mr else mr)\<rparr>))"
proof -
  have s: "2000 < length xs \<Longrightarrow> sample rng 2000 xs = Inr (draw rng 2000 xs)" for xs :: "row list"
    by (simp add: sample_def)
  show ?thesis
    unfolding map_step_def Let_def case_prod_beta getitem_mask_fst
    by (simp add: getitem_mask_heap s nth_append split: sum.splits)
qed



















section \<open>Not found and the frame of a search\<close>

lemma scenario_nowhere:
  "filter (exact_mask ''Selangor'' ''Nowhere'' ''Condo'')
     (rows \<lparr>columns = csv_columns (csv_of scenario),
            rows = filter required_present (map (clean_row pandas2) (csv_rows (csv_of scenario)))\<rparr>) = []"
  by code_simp

text \<open>
  C8. When no record of the snapshot matches the three query values exactly, the handler
  returns \<^verbatim>\<open>{"found": False}\<close>, whatever pandas and the random source are. Nothing after
  line 81 runs: the store the call leaves holds one frame more than before, the empty
  selection \<^verbatim>\<open>all_results\<close>, and none of the frames the later steps build (the district
  selection, the copy for the trends, the selection and the sample for the map).
\<close>

theorem search_not_found:
  assumes snap: "is_snapshot g f"
    and none: "filter (exact_mask state district houseType) (rows f) = []"
  shows "search_rentals lib rng state district houseType g =
           (Inr NotFound, g\<lparr>heap := heap g @ [f\<lparr>rows := []\<rparr>]\<rparr>)"
proof -
  from snap obtain a where a: "df g = Some a" "heap g ! a = f"
    and cols: "set [''Rent Price'', ''State'', ''District'', ''Standard Type''] \<subseteq> set (columns f)"
    by (rule is_snapshotD)
  have mask: "getitem_mask (exact_mask state district houseType) a g =
      (length (heap g), g\<lparr>heap := heap g @ [f\<lparr>rows := []\<rparr>]\<rparr>)"
    by (simp add: getitem_mask_def a(2) none)
  show ?thesis
    unfolding search_rentals_def using cols by (simp add: a mask)
qed

theorem search_not_found_witness:
  "search_rentals pandas2 [] ''Selangor'' ''Nowhere'' ''Condo'' (loaded pandas2 scenario) =
     (Inr NotFound, (loaded pandas2 scenario)\<lparr>heap := heap (loaded pandas2 scenario) @
        [\<lparr>columns = csv_columns (csv_of scenario),
          rows = filter required_present (map (clean_row pandas2) (csv_rows (csv_of scenario)))\<rparr>
           \<lparr>rows := []\<rparr>]\<rparr>)"
  by (rule search_not_found [OF load_data_is_snapshot [OF loaded_scenario] scenario_nowhere])

text \<open>
  C9. A search leaves the snapshot as it found it: \<^verbatim>\<open>df\<close> is still the same stored frame
  with the same records, the catalog of property types and the location tree are the
  same, and so is the answer of \<^verbatim>\<open>get_form_options\<close>. Every frame that was in the store
  before the call is in it afterwards, unchanged, at its address: the selections, the
  copy that receives the date columns and loses rows in place, and the sample are all
  frames the call adds after them.
\<close>

theorem search_leaves_snapshot:
  assumes snap: "is_snapshot g f"
  shows "is_snapshot (snd (search_rentals lib rng state district houseType g)) f \<and>
         df (snd (search_rentals lib rng state district houseType g)) = df g \<and>
         all_property_types (snd (search_rentals lib rng state district houseType g)) = all_property_types g \<and>
         location_tree (snd (search_rentals lib rng state district houseType g)) = location_tree g \<and>
         get_form_options (snd (search_rentals lib rng state district houseType g)) = get_form_options g \<and>
         take (length (heap g)) (heap (snd (search_rentals lib rng state district houseType g))) = heap g"
proof -
  let ?g' = "snd (search_rentals lib rng state district houseType g)"
  have "extends g ?g'" by (rule search_rentals_extends)
  then obtain ext where g': "?g' = g\<lparr>heap := heap g @ ext\<rparr>" unfolding extends_def by blast
  have 1: "is_snapshot ?g' f" using snap by (rule is_snapshot_search)
  have 2: "df ?g' = df g" by (simp add: g')
  have 3: "all_property_types ?g' = all_property_types g" by (simp add: g')
  have 4: "location_tree ?g' = location_tree g" by (simp add: g')
  have 5: "get_form_options ?g' = get_form_options g" by (simp add: get_form_options_def g')
  have 6: "take (length (heap g)) (heap ?g') = heap g" by (simp add: g')
  from 1 2 3 4 5 6 show ?thesis by blast
qed

theorem search_leaves_snapshot_witness:
  "is_snapshot (snd (search_rentals pandas2 [] ''KL'' ''Ampang'' ''Condo'' (loaded pandas2 scenario)))
     \<lparr>columns = csv_columns (csv_of scenario),
      rows = filter required_present (map (clean_row pandas2) (csv_rows (csv_of scenario)))\<rparr> \<and>
   location_tree (snd (search_rentals pandas2 [] ''KL'' ''Ampang'' ''Condo'' (loaded pandas2 scenario))) =
     location_tree (loaded pandas2 scenario) \<and>
   take (length (heap (loaded pandas2 scenario)))
     (heap (snd (search_rentals pandas2 [] ''KL'' ''Ampang'' ''Condo'' (loaded pandas2 scenario)))) =
     heap (loaded pandas2 scenario)"
  using search_leaves_snapshot [OF load_data_is_snapshot [OF loaded_scenario],
      of pandas2 "[]" "''KL''" "''Ampang''" "''Condo''"]
  by blast

section \<open>Determinism\<close>

text \<open>The values of the trend step and of the map step depend on the frame they read only.\<close>

lemma trend_step_fst_cong:
  "heap g ! n = heap g' ! n' \<Longrightarrow> fst (trend_step lib n g) = fst (trend_step lib n' g')"
  unfolding trend_step_def Let_def by (simp add: nth_append)

lemma map_step_fst_rng:
  assumes h: "heap g ! n = fr" and h': "heap g' ! n' = fr"
  shows "(\<forall>e. fst (map_step rng n g) = Inl e \<longrightarrow> fst (map_step rng' n' g') = Inl e)"
    and "\<forall>m. fst (map_step rng n g) = Inr m \<longrightarrow>
           (\<exists>m'. fst (map_step rng' n' g') = Inr m' \<and> center m' = center m \<and>
              map_min m' = map_min m \<and> map_max m' = map_max m \<and>
              length (map_points m') = length (map_points m) \<and>
              (length (filter has_coordinates (rows fr)) \<le> 2000 \<longrightarrow> map_points m' = map_points m))"
  unfolding map_step_fst h h' Let_def
  by (auto split: sum.splits simp: length_draw)


lemma search_rentals_shape:
  fixes s d t :: string
  assumes snap: "is_snapshot g f"
  obtains n g2 g3 where
    "heap g2 ! n = all_results_of s d t f" and "heap g3 ! n = all_results_of s d t f" and
    "fst (search_rentals lib rng s d t g) =
     (if rows (all_results_of s d t f) = [] then Inr NotFound
      else case median_rent_of (all_results_of s d t f) of Inl e \<Rightarrow> Inl e
       | Inr median_rent \<Rightarrow>
      (case comparison_of (district_df_of s d f) t median_rent of Inl e \<Rightarrow> Inl e
       | Inr comparison_list \<Rightarrow>
      (case fst (trend_step lib n g2) of Inl e \<Rightarrow> Inl e
       | Inr trend_data \<Rightarrow>
      (case distribution_of (all_results_of s d t f) of Inl e \<Rightarrow> Inl e
       | Inr distribution_data \<Rightarrow>
      (case fst (map_step rng n g3) of Inl e \<Rightarrow> Inl e
       | Inr m \<Rightarrow>
          Inr (Found \<lparr>location = d @ '', '' @ s, medianRent = median_rent,
                 suitableIncome = median_rent * 3, coordinates = center m,
                 points = map_points m, mapMin = map_min m, mapMax = map_max m,
                 commonFeatures = common_features (all_results_of s d t f),
                 count_listings = length (rows (all_results_of s d t f)),
                 comparison = comparison_list, trends = trend_data,
                 distribution = distribution_data\<rparr>))))))"
proof -
  from snap obtain a where a: "df g = Some a" "a < length (heap g)" "heap g ! a = f"
    and cols: "set [''Rent Price'', ''State'', ''District'', ''Standard Type''] \<subseteq> set (columns f)"
    by (rule is_snapshotD)
  have c: "columns (all_results_of s d t f) = columns f" by (simp add: all_results_of_def)
  note nf1 = search_rentals_normal_form(1) [OF a(1) a(2), where lib = lib and rng = rng and s = s
      and d = d and t = t, unfolded a(3)]
  note nf2 = search_rentals_normal_form(2) [OF a(1) a(2), where s = s
      and d = d and t = t, unfolded a(3)]
  note nf3 = search_rentals_normal_form(3) [OF a(1) a(2), where lib = lib and s = s
      and d = d and t = t, unfolded a(3)]
  show thesis
  proof (rule that [OF nf2 nf3])
    show "fst (search_rentals lib rng s d t g) =
     (if rows (all_results_of s d t f) = [] then Inr NotFound
      else case median_rent_of (all_results_of s d t f) of Inl e \<Rightarrow> Inl e
       | Inr median_rent \<Rightarrow>
      (case comparison_of (district_df_of s d f) t median_rent of Inl e \<Rightarrow> Inl e
       | Inr comparison_list \<Rightarrow>
      (case fst (trend_step lib (length (heap g)) (snd (getitem_mask (district_mask s d) a
            (snd (getitem_mask (exact_mask s d t) a g))))) of Inl e \<Rightarrow> Inl e
       | Inr trend_data \<Rightarrow>
      (case distribution_of (all_results_of s d t f) of Inl e \<Rightarrow> Inl e
       | Inr distribution_data \<Rightarrow>
      (case fst (map_step rng (length (heap g)) (snd (trend_step lib (length (heap g))
            (snd (getitem_mask (district_mask s d) a
            (snd (getitem_mask (exact_mask s d t) a g))))))) of Inl e \<Rightarrow> Inl e
       | Inr m \<Rightarrow>
          Inr (Found \<lparr>location = d @ '', '' @ s, medianRent = median_rent,
                 suitableIncome = median_rent * 3, coordinates = center m,
                 points = map_points m, mapMin = map_min m, mapMax = map_max m,
                 commonFeatures = common_features (all_results_of s d t f),
                 count_listings = length (rows (all_results_of s d t f)),
                 comparison = comparison_list, trends = trend_data,
                 distribution = distribution_data\<rparr>))))))"
      unfolding nf1 c using cols by simp
  qed
qed

text \<open>
  C10. Take two searches with the same three query values on the same snapshot (two
  states of the store that hold it, such as the one before a search and the one it
  leaves), each with its own random source. When the first finds records, so does the
  second, and the two results agree in every field but \<open>points\<close>; the two lists of points
  have the same length, and they are equal when at most 2000 filtered records have
  both coordinates. When the first does not return a result (not found, or an
  exception) the second returns the same.
\<close>

theorem search_deterministic_except_points:
  assumes snap: "is_snapshot g f" and snap': "is_snapshot g' f"
  shows "let out = fst (search_rentals lib rng state district houseType g);
             out' = fst (search_rentals lib rng' state district houseType g');
             mr = filter has_coordinates (filter (exact_mask state district houseType) (rows f))
         in (\<forall>r. out = Inr (Found r) \<longrightarrow>
               (\<exists>r'. out' = Inr (Found r') \<and> r'\<lparr>points := points r\<rparr> = r \<and>
                  length (points r') = length (points r) \<and>
                  (length mr \<le> 2000 \<longrightarrow> r' = r))) \<and>
            ((\<forall>r. out \<noteq> Inr (Found r)) \<longrightarrow> out' = out)"
proof -
  let ?AR = "all_results_of state district houseType f"
  from snap obtain n g2 g3 where h2: "heap g2 ! n = ?AR" and h3: "heap g3 ! n = ?AR"
    and out: "fst (search_rentals lib rng state district houseType g) =
     (if rows ?AR = [] then Inr NotFound
      else case median_rent_of ?AR of Inl e \<Rightarrow> Inl e
       | Inr median_rent \<Rightarrow>
      (case comparison_of (district_df_of state district f) houseType median_rent of Inl e \<Rightarrow> Inl e
       | Inr comparison_list \<Rightarrow>
      (case fst (trend_step lib n g2) of Inl e \<Rightarrow> Inl e
       | Inr trend_data \<Rightarrow>
      (case distribution_of ?AR of Inl e \<Rightarrow> Inl e
       | Inr distribution_data \<Rightarrow>
      (case fst (map_step rng n g3) of Inl e \<Rightarrow> Inl e
       | Inr m \<Rightarrow>
          Inr (Found \<lparr>location = district @ '', '' @ state, medianRent = median_rent,
                 suitableIncome = median_rent * 3, coordinates = center m,
                 points = map_points m, mapMin = map_min m, mapMax = map_max m,
                 commonFeatures = common_features ?AR,
                 count_listings = length (rows ?AR),
                 comparison = comparison_list, trends = trend_data,
                 distribution = distribution_data\<rparr>))))))"
    by (rule search_rentals_shape [where lib = lib and rng = rng])
  from snap' obtain n' g2' g3' where h2': "heap g2' ! n' = ?AR" and h3': "heap g3' ! n' = ?AR"
    and out': "fst (search_rentals lib rng' state district houseType g') =
     (if rows ?AR = [] then Inr NotFound
      else case median_rent_of ?AR of Inl e \<Rightarrow> Inl e
       | Inr median_rent \<Rightarrow>
      (case comparison_of (district_df_of state district f) houseType median_rent of Inl e \<Rightarrow> Inl e
       | Inr comparison_list \<Rightarrow>
      (case fst (trend_step lib n' g2') of Inl e \<Rightarrow> Inl e
       | Inr trend_data \<Rightarrow>
      (case distribution_of ?AR of Inl e \<Rightarrow> Inl e
       | Inr distribution_data \<Rightarrow>
      (case fst (map_step rng' n' g3') of Inl e \<Rightarrow> Inl e
       | Inr m \<Rightarrow>
          Inr (Found \<lparr>location = district @ '', '' @ state, medianRent = median_rent,
                 suitableIncome = median_rent * 3, coordinates = center m,
                 points = map_points m, mapMin = map_min m, mapMax = map_max m,
                 commonFeatures = common_features ?AR,
                 count_listings = length (rows ?AR),
                 comparison = comparison_list, trends = trend_data,
                 distribution = distribution_data\<rparr>))))))"
    by (rule search_rentals_shape [where lib = lib and rng = rng'])
  define T where "T = fst (trend_step lib n g2)"
  define M where "M = fst (map_step rng n g3)"
  define M' where "M' = fst (map_step rng' n' g3')"
  define mr where "mr = filter has_coordinates (filter (exact_mask state district houseType) (rows f))"
  have T': "fst (trend_step lib n' g2') = T"
    unfolding T_def by (rule trend_step_fst_cong) (simp add: h2 h2')
  have rows: "filter has_coordinates (rows ?AR) = mr" by (simp add: all_results_of_def mr_def)
  have Ml: "M = Inl e \<Longrightarrow> M' = Inl e" for e
    using map_step_fst_rng(1) [OF h3 h3', of rng rng'] unfolding M_def M'_def by blast
  have Mr: "\<exists>m'. M' = Inr m' \<and> center m' = center m \<and> map_min m' = map_min m \<and>
      map_max m' = map_max m \<and> length (map_points m') = length (map_points m) \<and>
      (length mr \<le> 2000 \<longrightarrow> map_points m' = map_points m)" if "M = Inr m" for m
    using map_step_fst_rng(2) [OF h3 h3', of rng rng'] that unfolding M_def M'_def rows by blast
  note o = out [folded T_def M_def] and o' = out' [unfolded T' , folded M'_def]
  have found: "\<exists>r'. fst (search_rentals lib rng' state district houseType g') = Inr (Found r') \<and>
      r'\<lparr>points := points r\<rparr> = r \<and> length (points r') = length (points r) \<and>
      (length mr \<le> 2000 \<longrightarrow> r' = r)"
    if r: "fst (search_rentals lib rng state district houseType g) = Inr (Found r)" for r
  proof -
    from r o obtain m where m: "M = Inr m" by (auto split: if_splits sum.splits)
    from Mr [OF m] obtain m' where m': "M' = Inr m'" "center m' = center m" "map_min m' = map_min m"
      "map_max m' = map_max m" "length (map_points m') = length (map_points m)"
      "length mr \<le> 2000 \<longrightarrow> map_points m' = map_points m"
      by blast
    from r show ?thesis
      unfolding o o' m m' by (auto split: if_splits sum.splits simp: m')
  qed
  have other: "fst (search_rentals lib rng' state district houseType g') =
      fst (search_rentals lib rng state district houseType g)"
    if r: "\<forall>r. fst (search_rentals lib rng state district houseType g) \<noteq> Inr (Found r)"
  proof (cases M)
    case (Inl e)
    then show ?thesis unfolding o o' using Ml [OF Inl] by (simp split: sum.splits)
  next
    case (Inr m)
    from Mr [OF Inr] obtain m' where m': "M' = Inr m'" by blast
    from r show ?thesis unfolding o o' Inr m' by (auto split: if_splits sum.splits)
  qed
  show ?thesis unfolding Let_def mr_def [symmetric] using found other by blast
qed

lemma scenario_located_count:
  "length (filter has_coordinates (filter (exact_mask ''KL'' ''Ampang'' ''Condo'')
      (rows \<lparr>columns = csv_columns (csv_of scenario),
             rows = filter required_present (map (clean_row pandas2) (csv_rows (csv_of scenario)))\<rparr>))) = 2"
  by code_simp

theorem search_deterministic_except_points_witness:
  "fst (search_rentals pandas2 [7, 5] ''KL'' ''Ampang'' ''Condo''
      (snd (search_rentals pandas2 [] ''KL'' ''Ampang'' ''Condo'' (loaded pandas2 scenario)))) =
   fst (search_rentals pandas2 [] ''KL'' ''Ampang'' ''Condo'' (loaded pandas2 scenario))"
proof -
  note s = load_data_is_snapshot [OF loaded_scenario]
  note s' = is_snapshot_search [OF s, where lib = pandas2 and rng = "[]" and s = "''KL''"
      and d = "''Ampang''" and t = "''Condo''"]
  note t = search_deterministic_except_points [OF s s', where lib = pandas2 and rng = "[]"
      and rng' = "[7, 5]" and state = "''KL''" and district = "''Ampang''" and houseType = "''Condo''"]
  show ?thesis
    using t scenario_condo unfolding Let_def scenario_located_count by auto
qed

end
